theory Spec2Isabelle
  imports Complex_Main "HOL-Library.Char_ord" "HOL-Library.List_Lexorder" "HOL-Library.Multiset"
begin

section \<open>The two tables of accounts\_db.py\<close>

text \<open>
  \<^verbatim>\<open>init_db\<close> creates two tables. A row of \<^verbatim>\<open>accounts\<close> is keyed by its
  \<^verbatim>\<open>account_id TEXT PRIMARY KEY\<close>, so the table is a finite map from the key to the
  remaining columns. The table \<^verbatim>\<open>transactions\<close> is only ever appended to; it is the
  list of its rows in insertion order, which is the order of the
  \<^verbatim>\<open>INTEGER PRIMARY KEY AUTOINCREMENT\<close> column.

  The \<^verbatim>\<open>REAL\<close> columns and the Python \<^verbatim>\<open>float\<close> arguments hold IEEE 754
  doubles. A finite double is a real number, and the model writes it as one; the sums
  and differences that the source computes are rounded as the hardware rounds them (see
  the section on floating-point arithmetic). Text columns are byte strings.
\<close>

record account =
  holder_name :: string
  account_type :: string
  balance :: real
  status :: string
  created_at :: string

record txn =
  tx_id :: nat
  tx_account_id :: string
  tx_type :: string
  tx_amount :: real
  tx_description :: string
  tx_balance_after :: real
  tx_timestamp :: string

record db =
  accounts :: "string \<rightharpoonup> account"
  transactions :: "txn list"

section \<open>Floating-point arithmetic\<close>

text \<open>
  Python's \<^verbatim>\<open>+\<close> and \<^verbatim>\<open>-\<close> on floats are the IEEE 754 binary64 operations: the
  exact result, rounded to the nearest double, a tie going to the double whose last
  significand bit is even. A double has a significand of 53 bits, so the doubles near
  \<open>x\<close> are the multiples of \<open>2\<close> to the power \<open>\<lfloor>log\<^sub>2 \<bar>x\<bar>\<rfloor> - 52\<close>; below the
  smallest normal number the spacing stays at that of exponent \<open>-1022\<close>. Results beyond
  the largest finite double (infinities and NaN) are not modelled.
\<close>

definition round_ties_even :: "real \<Rightarrow> int" where
  "round_ties_even q =
     (let f = \<lfloor>q\<rfloor>; r = q - of_int f
      in if r < 1 / 2 then f else if 1 / 2 < r then f + 1 else if even f then f else f + 1)"

definition double_ulp :: "real \<Rightarrow> real" where
  "double_ulp x = 2 powr of_int (max \<lfloor>log 2 \<bar>x\<bar>\<rfloor> (- 1022) - 52)"

definition round_double :: "real \<Rightarrow> real" where
  "round_double x =
     (if x = 0 then 0 else of_int (round_ties_even (x / double_ulp x)) * double_ulp x)"

definition float_add :: "real \<Rightarrow> real \<Rightarrow> real" where
  "float_add x y = round_double (x + y)"

definition float_sub :: "real \<Rightarrow> real \<Rightarrow> real" where
  "float_sub x y = round_double (x - y)"

section \<open>Connections\<close>

text \<open>
  \<^verbatim>\<open>get_db\<close> opens a new connection on the database file at every call and closes it
  on exit. A connection holds the writes it has executed and not yet committed:
  \<open>None\<close> when it has written nothing, otherwise its working copy of the file.
  \<^verbatim>\<open>commit\<close> publishes the working copy, \<^verbatim>\<open>rollback\<close> and \<^verbatim>\<open>close\<close> discard it.
  The functions below return the committed file, since every path of the source
  leaves its \<^verbatim>\<open>with\<close> block right after them.
\<close>

type_synonym conn = "db option"

definition get_db :: conn where
  "get_db = None"

definition conn_view :: "db \<Rightarrow> conn \<Rightarrow> db" where
  "conn_view file c = (case c of None \<Rightarrow> file | Some w \<Rightarrow> w)"

definition conn_execute :: "(db \<Rightarrow> db) \<Rightarrow> db \<Rightarrow> conn \<Rightarrow> conn" where
  "conn_execute stmt file c = Some (stmt (conn_view file c))"

definition conn_commit :: "db \<Rightarrow> conn \<Rightarrow> db" where
  "conn_commit file c = conn_view file c"

definition conn_rollback :: "db \<Rightarrow> conn \<Rightarrow> db" where
  "conn_rollback file c = file"

definition conn_close :: "db \<Rightarrow> conn \<Rightarrow> db" where
  "conn_close file c = file"

section \<open>The SQL statements\<close>

text \<open>\<^verbatim>\<open>SELECT balance FROM accounts WHERE account_id = ?\<close>, then \<^verbatim>\<open>fetchone\<close>.\<close>

definition select_balance :: "db \<Rightarrow> string \<Rightarrow> real option" where
  "select_balance d account_id = map_option balance (accounts d account_id)"

text \<open>
  \<^verbatim>\<open>... WHERE account_id = ? AND status = "active"\<close>. SQLite reads the double-quoted
  \<^verbatim>\<open>"active"\<close> as a string literal, there being no column of that name.
\<close>

definition select_balance_active :: "db \<Rightarrow> string \<Rightarrow> real option" where
  "select_balance_active d account_id =
     (case accounts d account_id of
        None \<Rightarrow> None
      | Some a \<Rightarrow> if status a = ''active'' then Some (balance a) else None)"

text \<open>\<^verbatim>\<open>... WHERE account_id = ? AND status = "active" AND balance >= ?\<close>\<close>

definition select_balance_active_ge :: "db \<Rightarrow> string \<Rightarrow> real \<Rightarrow> real option" where
  "select_balance_active_ge d account_id amount =
     (case accounts d account_id of
        None \<Rightarrow> None
      | Some a \<Rightarrow> if status a = ''active'' \<and> balance a \<ge> amount then Some (balance a) else None)"

text \<open>\<^verbatim>\<open>UPDATE accounts SET balance = ? WHERE account_id = ?\<close>\<close>

definition update_balance :: "string \<Rightarrow> real \<Rightarrow> db \<Rightarrow> db" where
  "update_balance account_id new_balance d =
     (case accounts d account_id of
        None \<Rightarrow> d
      | Some a \<Rightarrow> d\<lparr>accounts := (accounts d)(account_id \<mapsto> a\<lparr>balance := new_balance\<rparr>)\<rparr>)"

text \<open>\<^verbatim>\<open>UPDATE accounts SET status = 'closed' WHERE account_id = ?\<close>\<close>

definition update_status_closed :: "string \<Rightarrow> db \<Rightarrow> db" where
  "update_status_closed account_id d =
     (case accounts d account_id of
        None \<Rightarrow> d
      | Some a \<Rightarrow> d\<lparr>accounts := (accounts d)(account_id \<mapsto> a\<lparr>status := ''closed''\<rparr>)\<rparr>)"

text \<open>\<^verbatim>\<open>cur.rowcount\<close> after an \<^verbatim>\<open>UPDATE accounts ... WHERE account_id = ?\<close>.\<close>

definition rowcount :: "db \<Rightarrow> string \<Rightarrow> nat" where
  "rowcount d account_id = (case accounts d account_id of None \<Rightarrow> 0 | Some a \<Rightarrow> 1)"

text \<open>
  \<^verbatim>\<open>AUTOINCREMENT\<close>: one more than the largest id the table has held. No row is
  ever deleted, so that is the largest id in the table.
\<close>

definition next_id :: "txn list \<Rightarrow> nat" where
  "next_id ts = Suc (foldr max (map tx_id ts) 0)"

text \<open>
  \<^verbatim>\<open>INSERT INTO transactions (account_id, type, amount, description, balance_after,
  timestamp) VALUES (?, ?, ?, ?, ?, ?)\<close>
\<close>

definition insert_transaction ::
  "string \<Rightarrow> string \<Rightarrow> real \<Rightarrow> string \<Rightarrow> real \<Rightarrow> string \<Rightarrow> db \<Rightarrow> db" where
  "insert_transaction account_id type amount description balance_after timestamp d =
     d\<lparr>transactions := transactions d @
        [\<lparr>tx_id = next_id (transactions d), tx_account_id = account_id, tx_type = type,
          tx_amount = amount, tx_description = description,
          tx_balance_after = balance_after, tx_timestamp = timestamp\<rparr>]\<rparr>"

section \<open>deposit and withdraw\<close>

text \<open>
  The clock is an input: \<open>now\<close> is the string
  \<^verbatim>\<open>datetime.now().strftime("%Y-%m-%d %H:%M:%S")\<close> that the call would read.
  Each function returns its Python result together with the committed file.
\<close>

definition deposit :: "db \<Rightarrow> string \<Rightarrow> real \<Rightarrow> string \<Rightarrow> string \<Rightarrow> bool \<times> db" where
  "deposit file account_id amount description now =
     (let conn = get_db in
      case select_balance_active (conn_view file conn) account_id of
        None \<Rightarrow> (False, conn_close file conn)
      | Some result \<Rightarrow>
          (let new_balance = float_add result amount;
               conn = conn_execute (update_balance account_id new_balance) file conn;
               conn = conn_execute
                        (insert_transaction account_id ''credit'' amount description
                           new_balance now) file conn
           in (True, conn_commit file conn)))"

definition withdraw :: "db \<Rightarrow> string \<Rightarrow> real \<Rightarrow> string \<Rightarrow> string \<Rightarrow> bool \<times> db" where
  "withdraw file account_id amount description now =
     (let conn = get_db in
      case select_balance_active_ge (conn_view file conn) account_id amount of
        None \<Rightarrow> (False, conn_close file conn)
      | Some result \<Rightarrow>
          (let new_balance = float_sub result amount;
               conn = conn_execute (update_balance account_id new_balance) file conn;
               conn = conn_execute
                        (insert_transaction account_id ''debit'' amount description
                           new_balance now) file conn
           in (True, conn_commit file conn)))"

section \<open>transfer\<close>

text \<open>
  \<^verbatim>\<open>transfer\<close> opens a connection and issues \<^verbatim>\<open>BEGIN TRANSACTION\<close> on it, a
  deferred transaction that takes no lock and writes nothing. \<^verbatim>\<open>withdraw\<close> and
  \<^verbatim>\<open>deposit\<close> are then called as they are: each opens a connection of its own and
  commits there. No statement is executed on the connection of \<^verbatim>\<open>transfer\<close>, so the
  \<^verbatim>\<open>rollback\<close> and \<^verbatim>\<open>commit\<close> of \<^verbatim>\<open>transfer\<close> act on a connection with no
  pending write. The two legs read the clock separately (\<open>now1\<close>, \<open>now2\<close>).
  Neither leg raises an exception on the values of this model, so the
  \<^verbatim>\<open>except\<close> branch has no counterpart.
\<close>

definition transfer :: "db \<Rightarrow> string \<Rightarrow> string \<Rightarrow> real \<Rightarrow> string \<Rightarrow> string \<Rightarrow> bool \<times> db" where
  "transfer file from_acc to_acc amount now1 now2 =
     (let conn = get_db in
      case withdraw file from_acc amount (''Transfer to '' @ to_acc) now1 of
        (False, file1) \<Rightarrow> (False, conn_rollback file1 conn)
      | (True, file1) \<Rightarrow>
          (case deposit file1 to_acc amount (''Transfer from '' @ from_acc) now2 of
             (False, file2) \<Rightarrow> (False, conn_rollback file2 conn)
           | (True, file2) \<Rightarrow> (True, conn_commit file2 conn)))"

section \<open>create\_account, close\_account, get\_balance\<close>

datatype db_error = IntegrityError

text \<open>
  \<^verbatim>\<open>INSERT INTO accounts (account_id, holder_name, account_type, balance, created_at)
  VALUES (?, ?, ?, ?, ?)\<close>. The column \<^verbatim>\<open>status\<close> takes its default
  \<^verbatim>\<open>'active'\<close>. A key that is already in the table violates the primary key and
  raises \<^verbatim>\<open>sqlite3.IntegrityError\<close>.
\<close>

definition insert_account ::
  "string \<Rightarrow> string \<Rightarrow> string \<Rightarrow> real \<Rightarrow> string \<Rightarrow> db \<Rightarrow> db_error + db" where
  "insert_account account_id holder account_ty initial today d =
     (case accounts d account_id of
        Some a \<Rightarrow> Inl IntegrityError
      | None \<Rightarrow>
          Inr (d\<lparr>accounts := (accounts d)(account_id \<mapsto>
                 \<lparr>holder_name = holder, account_type = account_ty, balance = initial,
                  status = ''active'', created_at = today\<rparr>)\<rparr>))"

text \<open>
  The random part of the identifier is an input: \<open>uuid8\<close> is
  \<^verbatim>\<open>str(uuid.uuid4())[:8]\<close>. The clock is read twice: \<open>today\<close> is the date
  written to \<^verbatim>\<open>created_at\<close>, \<open>now\<close> the timestamp of the transaction. An exception
  leaves the \<^verbatim>\<open>with\<close> block before the commit, so the file is as it was.
\<close>

definition create_account ::
  "db \<Rightarrow> string \<Rightarrow> string \<Rightarrow> string \<Rightarrow> real \<Rightarrow> string \<Rightarrow> string \<Rightarrow> (db_error + string) \<times> db" where
  "create_account file uuid8 holder account_ty initial_deposit today now =
     (let account_id = ''acc'' @ uuid8;
          conn = get_db
      in case insert_account account_id holder account_ty initial_deposit today
                (conn_view file conn) of
           Inl e \<Rightarrow> (Inl e, conn_close file conn)
         | Inr w \<Rightarrow>
             (let conn = Some w;
                  conn = (if initial_deposit > 0
                          then conn_execute
                                 (insert_transaction account_id ''credit'' initial_deposit
                                    ''Initial deposit'' initial_deposit now) file conn
                          else conn)
              in (Inr account_id, conn_commit file conn)))"

definition close_account :: "db \<Rightarrow> string \<Rightarrow> bool \<times> db" where
  "close_account file account_id =
     (let conn = get_db in
      case select_balance (conn_view file conn) account_id of
        None \<Rightarrow> (False, conn_close file conn)
      | Some result \<Rightarrow>
          if result \<noteq> 0 then (False, conn_close file conn)
          else (let conn = conn_execute (update_status_closed account_id) file conn
                in (rowcount (conn_view file conn) account_id > 0, conn_commit file conn)))"

definition get_balance :: "db \<Rightarrow> string \<Rightarrow> real" where
  "get_balance file account_id =
     (case select_balance (conn_view file get_db) account_id of
        Some result \<Rightarrow> result
      | None \<Rightarrow> 0)"

section \<open>update\_account\_details\<close>

text \<open>
  An optional argument is \<open>None\<close> or a string. The source tests it with
  \<^verbatim>\<open>if holder_name:\<close>, which is false for \<^verbatim>\<open>None\<close> and for the empty string.
\<close>

definition truthy :: "string option \<Rightarrow> bool" where
  "truthy x = (case x of None \<Rightarrow> False | Some s \<Rightarrow> s \<noteq> [])"

datatype column = HolderName | AccountType

fun set_column :: "column \<times> string \<Rightarrow> account \<Rightarrow> account" where
  "set_column (HolderName, v) a = a\<lparr>holder_name := v\<rparr>"
| "set_column (AccountType, v) a = a\<lparr>account_type := v\<rparr>"

text \<open>\<^verbatim>\<open>UPDATE accounts SET {', '.join(updates)} WHERE account_id = ?\<close>\<close>

definition update_columns :: "(column \<times> string) list \<Rightarrow> string \<Rightarrow> db \<Rightarrow> db" where
  "update_columns updates account_id d =
     (case accounts d account_id of
        None \<Rightarrow> d
      | Some a \<Rightarrow> d\<lparr>accounts := (accounts d)(account_id \<mapsto> fold set_column updates a)\<rparr>)"

definition update_account_details ::
  "db \<Rightarrow> string \<Rightarrow> string option \<Rightarrow> string option \<Rightarrow> bool \<times> db" where
  "update_account_details file account_id holder account_ty =
     (let conn = get_db;
          updates = [];
          updates = (case holder of
                       Some v \<Rightarrow> if v \<noteq> [] then updates @ [(HolderName, v)] else updates
                     | None \<Rightarrow> updates);
          updates = (case account_ty of
                       Some v \<Rightarrow> if v \<noteq> [] then updates @ [(AccountType, v)] else updates
                     | None \<Rightarrow> updates)
      in if updates = [] then (True, conn_close file conn)
         else (let conn = conn_execute (update_columns updates account_id) file conn
               in (rowcount (conn_view file conn) account_id > 0, conn_commit file conn)))"

section \<open>get\_history\<close>






section \<open>Observations and example data\<close>

text \<open>
  The ledger entries of one account, in insertion order, and the most recent of them.
\<close>

definition account_txns :: "db \<Rightarrow> string \<Rightarrow> txn list" where
  "account_txns d account_id = filter (\<lambda>t. tx_account_id t = account_id) (transactions d)"

definition last_txn :: "db \<Rightarrow> string \<Rightarrow> txn option" where
  "last_txn d account_id =
     (case rev (account_txns d account_id) of [] \<Rightarrow> None | t # ts \<Rightarrow> Some t)"

definition ex_db :: db where
  "ex_db =
     \<lparr>accounts =
        [''acc1'' \<mapsto> \<lparr>holder_name = ''Alice'', account_type = ''savings'', balance = 100,
                      status = ''active'', created_at = ''2024-01-01''\<rparr>,
         ''acc2'' \<mapsto> \<lparr>holder_name = ''Bob'', account_type = ''checking'', balance = 0,
                      status = ''active'', created_at = ''2024-01-01''\<rparr>,
         ''acc3'' \<mapsto> \<lparr>holder_name = ''Carol'', account_type = ''savings'', balance = 0,
                      status = ''closed'', created_at = ''2024-01-01''\<rparr>],
      transactions = []\<rparr>"

text \<open>A file in which the identifier \<^verbatim>\<open>acc1a2b3c4d\<close> is taken.\<close>

definition ex_taken_db :: db where
  "ex_taken_db =
     \<lparr>accounts =
        [''acc1a2b3c4d'' \<mapsto> \<lparr>holder_name = ''Dan'', account_type = ''savings'',
                             balance = 100, status = ''active'',
                             created_at = ''2024-01-02''\<rparr>],
      transactions =
        [\<lparr>tx_id = 1, tx_account_id = ''acc1a2b3c4d'', tx_type = ''credit'', tx_amount = 100,
          tx_description = ''Initial deposit'', tx_balance_after = 100,
          tx_timestamp = ''2024-01-02 10:00:00''\<rparr>]\<rparr>"


text \<open>
  A deposit or a withdraw on one account, with its amount, its description and the
  clock reading, and a sequence of them applied in order.
\<close>

datatype op = Deposit real string string | Withdraw real string string

fun apply_op :: "string \<Rightarrow> db \<Rightarrow> op \<Rightarrow> db" where
  "apply_op account_id d (Deposit amount description now) =
     snd (deposit d account_id amount description now)"
| "apply_op account_id d (Withdraw amount description now) =
     snd (withdraw d account_id amount description now)"

definition run_ops :: "db \<Rightarrow> string \<Rightarrow> op list \<Rightarrow> db" where
  "run_ops d account_id ops = foldl (apply_op account_id) d ops"

fun deposit_nonneg :: "op \<Rightarrow> bool" where
  "deposit_nonneg (Deposit amount description now) = (0 \<le> amount)"
| "deposit_nonneg (Withdraw amount description now) = True"

definition ex_ops :: "op list" where
  "ex_ops =
     [Deposit 50 ''bonus'' ''2024-01-02 10:00:00'',
      Withdraw 1000 ''oops'' ''2024-01-02 10:00:01'',
      Withdraw 150 ''Withdrawal'' ''2024-01-02 10:00:02'']"

text \<open>
  The foreign key of \<^verbatim>\<open>transactions\<close>: every ledger entry names an account of the
  table. SQLite does not enforce it unless asked to; the operations maintain it.
\<close>

definition ledger_refs_ok :: "db \<Rightarrow> bool" where
  "ledger_refs_ok d = list_all (\<lambda>t. accounts d (tx_account_id t) \<noteq> None) (transactions d)"



section \<open>Facts about rounding\<close>

text \<open>
  Rounding keeps the sign, and leaves every integer of magnitude at most \<open>2\<^sup>5\<^sup>3\<close> as
  it is. The integer \<open>2\<^sup>5\<^sup>3 + 1\<close> lies halfway between two doubles and goes to the
  even one, \<open>2\<^sup>5\<^sup>3\<close>.
\<close>

lemma round_ties_even_of_int: "round_ties_even (of_int m) = m"
  by (simp add: round_ties_even_def)

lemma round_ties_even_nonneg: "0 \<le> q \<Longrightarrow> 0 \<le> round_ties_even q"
  by (auto simp: round_ties_even_def Let_def)

lemma double_ulp_pos: "0 < double_ulp x"
  by (simp add: double_ulp_def)

lemma round_double_nonneg: "0 \<le> x \<Longrightarrow> 0 \<le> round_double x"
  using double_ulp_pos [of x]
  by (auto simp: round_double_def intro!: mult_nonneg_nonneg round_ties_even_nonneg)

lemma round_double_exact:
  assumes "x / double_ulp x = of_int m"
  shows "round_double x = x"
proof (cases "x = 0")
  case True
  then show ?thesis by (simp add: round_double_def)
next
  case False
  have "of_int (round_ties_even (x / double_ulp x)) * double_ulp x = (x / double_ulp x) * double_ulp x"
    by (simp only: assms round_ties_even_of_int)
  also have "\<dots> = x"
    using double_ulp_pos [of x] by simp
  finally show ?thesis
    using False by (simp add: round_double_def)
qed

lemma double_ulp_of_int:
  assumes "n \<noteq> 0" and "\<bar>n\<bar> \<le> 2 ^ 53"
  shows "\<exists>m. of_int n / double_ulp (of_int n) = of_int m"
proof -
  define x :: real where "x = of_int n"
  define e where "e = \<lfloor>log 2 \<bar>x\<bar>\<rfloor>"
  have x1: "1 \<le> \<bar>x\<bar>" and x53: "\<bar>x\<bar> \<le> 2 ^ 53"
    using assms unfolding x_def
    by (metis abs_ge_zero abs_zero dual_order.antisym int_one_le_iff_zero_less linorder_not_le of_int_1_le_iff of_int_abs zero_less_abs_iff,
        metis of_int_abs of_int_le_iff of_int_numeral of_int_power)
  have e0: "0 \<le> e"
    unfolding e_def using x1 by simp
  have bounds: "2 powr of_int e \<le> \<bar>x\<bar>"
    using floor_log_eq_powr_iff [of "\<bar>x\<bar>" 2 e] x1 unfolding e_def by simp
  have e53: "e \<le> 53"
  proof (rule ccontr)
    assume "\<not> e \<le> 53"
    then have "(2::real) powr 54 \<le> 2 powr of_int e"
      by (intro powr_mono) simp_all
    with bounds x53 show False by simp
  qed
  have ulp: "double_ulp x = 2 powr of_int (e - 52)"
    using e0 by (simp add: double_ulp_def e_def max_def)
  show ?thesis
  proof (cases "e \<le> 52")
    case True
    have "x / double_ulp x = x * 2 powr of_int (52 - e)"
      unfolding ulp by (simp add: powr_minus [symmetric] field_simps flip: powr_add)
    also have "\<dots> = x * 2 ^ nat (52 - e)"
      using True powr_real_of_int [of 2 "52 - e"] by simp
    also have "\<dots> = of_int (n * 2 ^ nat (52 - e))"
      by (simp add: x_def)
    finally show ?thesis unfolding x_def by blast
  next
    case False
    with e53 have e: "e = 53" by simp
    have "2 ^ 53 \<le> \<bar>x\<bar>"
      using bounds unfolding e by (simp add: powr_real_of_int)
    with x53 have "\<bar>x\<bar> = 2 ^ 53" by simp
    then have "\<bar>n\<bar> = 2 ^ 53"
      unfolding x_def by (metis of_int_abs of_int_eq_iff of_int_numeral of_int_power)
    then have "even n" by (metis even_abs_add_iff even_add even_numeral even_power zero_less_numeral)
    then obtain k where k: "n = 2 * k" by blast
    have "x / double_ulp x = of_int k"
      unfolding ulp e by (simp add: x_def k)
    then show ?thesis unfolding x_def by blast
  qed
qed

lemma round_double_of_int: "\<bar>n\<bar> \<le> 2 ^ 53 \<Longrightarrow> round_double (of_int n) = of_int n"
proof (cases "n = 0")
  case True
  then show ?thesis by (simp add: round_double_def)
next
  case False
  assume "\<bar>n\<bar> \<le> 2 ^ 53"
  with False obtain m where "of_int n / double_ulp (of_int n) = of_int m"
    using double_ulp_of_int by blast
  then show ?thesis by (rule round_double_exact)
qed

lemma round_double_numeral:
  "(numeral k :: int) \<le> 2 ^ 53 \<Longrightarrow> round_double (numeral k) = numeral k"
  using round_double_of_int [of "numeral k"] by simp

lemma round_double_neg_numeral:
  "(numeral k :: int) \<le> 2 ^ 53 \<Longrightarrow> round_double (- numeral k) = - numeral k"
  using round_double_of_int [of "- numeral k"] by simp

lemma round_double_0: "round_double 0 = 0"
  by (simp add: round_double_def)


lemmas float_evals =
  float_add_def float_sub_def round_double_0 round_double_numeral round_double_neg_numeral

lemma float_add_nonneg: "0 \<le> x \<Longrightarrow> 0 \<le> y \<Longrightarrow> 0 \<le> float_add x y"
  by (simp add: float_add_def round_double_nonneg)

lemma float_sub_nonneg: "y \<le> x \<Longrightarrow> 0 \<le> float_sub x y"
  by (simp add: float_sub_def round_double_nonneg)

section \<open>The operations as equations on the committed file\<close>

lemmas conn_defs =
  get_db_def conn_view_def conn_execute_def conn_commit_def conn_rollback_def conn_close_def

lemma deposit_eq:
  "deposit file aid amt desc now =
     (case accounts file aid of
        None \<Rightarrow> (False, file)
      | Some a \<Rightarrow>
          if status a = ''active''
          then (True, \<lparr>accounts = (accounts file)(aid \<mapsto>
                                    a\<lparr>balance := float_add (balance a) amt\<rparr>),
                      transactions = transactions file @
                        [\<lparr>tx_id = next_id (transactions file), tx_account_id = aid,
                          tx_type = ''credit'', tx_amount = amt, tx_description = desc,
                          tx_balance_after = float_add (balance a) amt,
                          tx_timestamp = now\<rparr>]\<rparr>)
          else (False, file))"
  by (simp add: deposit_def conn_defs select_balance_active_def update_balance_def
        insert_transaction_def Let_def split: option.splits)

lemma withdraw_eq:
  "withdraw file aid amt desc now =
     (case accounts file aid of
        None \<Rightarrow> (False, file)
      | Some a \<Rightarrow>
          if status a = ''active'' \<and> amt \<le> balance a
          then (True, \<lparr>accounts = (accounts file)(aid \<mapsto>
                                    a\<lparr>balance := float_sub (balance a) amt\<rparr>),
                      transactions = transactions file @
                        [\<lparr>tx_id = next_id (transactions file), tx_account_id = aid,
                          tx_type = ''debit'', tx_amount = amt, tx_description = desc,
                          tx_balance_after = float_sub (balance a) amt,
                          tx_timestamp = now\<rparr>]\<rparr>)
          else (False, file))"
  by (simp add: withdraw_def conn_defs select_balance_active_ge_def update_balance_def
        insert_transaction_def Let_def split: option.splits)

lemma transfer_eq:
  "transfer file from_acc to_acc amt now1 now2 =
     (case withdraw file from_acc amt (''Transfer to '' @ to_acc) now1 of
        (False, file1) \<Rightarrow> (False, file1)
      | (True, file1) \<Rightarrow>
          (case deposit file1 to_acc amt (''Transfer from '' @ from_acc) now2 of
             (False, file2) \<Rightarrow> (False, file2)
           | (True, file2) \<Rightarrow> (True, file2)))"
  by (simp add: transfer_def conn_defs split: prod.splits bool.splits)

lemma get_balance_eq:
  "get_balance file aid = (case accounts file aid of None \<Rightarrow> 0 | Some a \<Rightarrow> balance a)"
  by (simp add: get_balance_def conn_defs select_balance_def split: option.splits)

lemma close_account_eq:
  "close_account file aid =
     (case accounts file aid of
        None \<Rightarrow> (False, file)
      | Some a \<Rightarrow>
          if balance a \<noteq> 0 then (False, file)
          else (True, file\<lparr>accounts := (accounts file)(aid \<mapsto> a\<lparr>status := ''closed''\<rparr>)\<rparr>))"
  by (simp add: close_account_def conn_defs select_balance_def update_status_closed_def
        rowcount_def Let_def split: option.splits)

lemma create_account_eq:
  "create_account file uuid8 holder ty initial today now =
     (case accounts file (''acc'' @ uuid8) of
        Some a \<Rightarrow> (Inl IntegrityError, file)
      | None \<Rightarrow>
          (Inr (''acc'' @ uuid8),
           \<lparr>accounts = (accounts file)(''acc'' @ uuid8 \<mapsto>
               \<lparr>holder_name = holder, account_type = ty, balance = initial,
                status = ''active'', created_at = today\<rparr>),
            transactions =
              (if initial > 0
               then transactions file @
                      [\<lparr>tx_id = next_id (transactions file), tx_account_id = ''acc'' @ uuid8,
                        tx_type = ''credit'', tx_amount = initial,
                        tx_description = ''Initial deposit'', tx_balance_after = initial,
                        tx_timestamp = now\<rparr>]
               else transactions file)\<rparr>))"
  by (simp add: create_account_def conn_defs insert_account_def insert_transaction_def Let_def
        split: option.splits)

lemma update_account_details_eq:
  "update_account_details file aid holder ty =
     (if \<not> truthy holder \<and> \<not> truthy ty then (True, file)
      else case accounts file aid of
             None \<Rightarrow> (False, file)
           | Some a \<Rightarrow>
               (True, file\<lparr>accounts := (accounts file)(aid \<mapsto>
                  a\<lparr>holder_name := (case holder of Some v \<Rightarrow> if v \<noteq> [] then v else holder_name a
                                      | None \<Rightarrow> holder_name a),
                    account_type := (case ty of Some v \<Rightarrow> if v \<noteq> [] then v else account_type a
                                      | None \<Rightarrow> account_type a)\<rparr>)\<rparr>))"
  by (simp add: update_account_details_def conn_defs update_columns_def rowcount_def truthy_def
        Let_def split: option.splits)

section \<open>Properties\<close>

subsection \<open>Failed transfers\<close>

text \<open>
  The two ways in which \<^verbatim>\<open>transfer\<close> returns false. When the withdraw leg fails, the
  file is as it was. When the deposit leg fails, the file is the one that the withdraw
  leg committed.
\<close>

lemma transfer_withdraw_leg_fails:
  "\<not> fst (withdraw file a amt (''Transfer to '' @ b) now1) \<Longrightarrow>
   transfer file a b amt now1 now2 = (False, file)"
  by (auto simp: transfer_eq withdraw_eq split: option.splits if_splits)

lemma transfer_deposit_leg_fails:
  "fst (withdraw file a amt (''Transfer to '' @ b) now1) \<Longrightarrow>
   \<not> fst (deposit (snd (withdraw file a amt (''Transfer to '' @ b) now1)) b amt
            (''Transfer from '' @ a) now2) \<Longrightarrow>
   transfer file a b amt now1 now2
     = (False, snd (withdraw file a amt (''Transfer to '' @ b) now1))"
  by (auto simp: transfer_eq deposit_eq split: prod.splits option.splits if_splits)

text \<open>
  C1. A transfer that returns false should leave both balances and both ledgers as they
  were. It does when the withdraw leg fails. When the withdraw leg succeeds and the
  deposit leg fails, the withdraw has been committed on its own connection and the
  rollback of \<^verbatim>\<open>transfer\<close> has nothing to undo: here the destination \<^verbatim>\<open>acc9\<close>
  does not exist, the transfer returns false, and the source has lost 30 and gained a
  debit entry.
\<close>

theorem transfer_failed_deposit_leg_keeps_withdraw:
  "fst (transfer ex_db ''acc1'' ''acc9'' 30 ''2024-01-02 10:00:00'' ''2024-01-02 10:00:01'') = False
   \<and> get_balance ex_db ''acc1'' = 100
   \<and> get_balance
        (snd (transfer ex_db ''acc1'' ''acc9'' 30 ''2024-01-02 10:00:00'' ''2024-01-02 10:00:01''))
        ''acc1'' = 70
   \<and> account_txns ex_db ''acc1'' = []
   \<and> account_txns
        (snd (transfer ex_db ''acc1'' ''acc9'' 30 ''2024-01-02 10:00:00'' ''2024-01-02 10:00:01''))
        ''acc1'' =
       [\<lparr>tx_id = 1, tx_account_id = ''acc1'', tx_type = ''debit'', tx_amount = 30,
         tx_description = ''Transfer to acc9'', tx_balance_after = 70,
         tx_timestamp = ''2024-01-02 10:00:00''\<rparr>]"
  by (simp add: transfer_def withdraw_def deposit_def conn_defs select_balance_active_def
        select_balance_active_ge_def update_balance_def insert_transaction_def
        get_balance_def select_balance_def account_txns_def next_id_def ex_db_def
        float_evals)

subsection \<open>Non-negative balances\<close>

lemma apply_op_nonneg:
  "0 \<le> get_balance d aid \<Longrightarrow> deposit_nonneg x \<Longrightarrow> 0 \<le> get_balance (apply_op aid d x) aid"
  by (cases x)
    (auto simp: deposit_eq withdraw_eq get_balance_eq float_add_nonneg float_sub_nonneg
       split: option.splits)

lemma run_ops_nonneg:
  "0 \<le> get_balance d aid \<Longrightarrow> \<forall>x\<in>set ops. deposit_nonneg x \<Longrightarrow>
   0 \<le> get_balance (run_ops d aid ops) aid"
  unfolding run_ops_def
  by (induction ops arbitrary: d) (simp_all add: apply_op_nonneg)

lemma withdraw_overdraw:
  "get_balance d aid - amt < 0 \<Longrightarrow> withdraw d aid amt desc now = (False, d)"
  by (auto simp: withdraw_eq get_balance_eq split: option.splits)

text \<open>
  C2, as stated, fails: the source does not look at the sign of the amount, and a deposit
  of a negative amount on an account with balance 0 succeeds and leaves a negative
  balance.
\<close>

theorem deposit_negative_amount_counterexample:
  "0 \<le> get_balance ex_db ''acc2''
   \<and> fst (deposit ex_db ''acc2'' (- 50) ''Deposit'' ''2024-01-02 10:00:00'') = True
   \<and> get_balance (snd (deposit ex_db ''acc2'' (- 50) ''Deposit'' ''2024-01-02 10:00:00'')) ''acc2''
       < 0"
  by (simp add: deposit_def conn_defs select_balance_active_def update_balance_def
        insert_transaction_def get_balance_def select_balance_def ex_db_def float_evals)

text \<open>
  C2, amended. Starting from a non-negative balance, after every prefix of a sequence of
  deposits and withdraws on the account in which no deposit has a negative amount, the
  balance is non-negative. In every state, a withdraw that would make the balance
  negative returns false and changes nothing.
\<close>

theorem balance_never_negative:
  assumes "0 \<le> get_balance file aid" and "\<forall>x\<in>set ops. deposit_nonneg x"
  shows "(\<forall>n. 0 \<le> get_balance (run_ops file aid (take n ops)) aid)
       \<and> (\<forall>d amt desc now.
            get_balance d aid - amt < 0 \<longrightarrow> withdraw d aid amt desc now = (False, d))"
proof -
  have "0 \<le> get_balance (run_ops file aid (take n ops)) aid" for n
  proof -
    have "\<forall>x\<in>set (take n ops). deposit_nonneg x"
      using assms(2) by (meson in_set_takeD)
    with assms(1) show ?thesis by (rule run_ops_nonneg)
  qed
  then show ?thesis
    by (simp add: withdraw_overdraw)
qed

theorem balance_never_negative_witness:
  "0 \<le> get_balance ex_db ''acc1''
   \<and> list_all deposit_nonneg ex_ops
   \<and> get_balance (run_ops ex_db ''acc1'' ex_ops) ''acc1'' = 0
   \<and> 0 \<le> get_balance (run_ops ex_db ''acc1'' (take 3 ex_ops)) ''acc1''
   \<and> get_balance ex_db ''acc1'' - 1000 < 0
   \<and> withdraw ex_db ''acc1'' 1000 ''oops'' ''2024-01-02 10:00:01'' = (False, ex_db)"
proof -
  have b: "0 \<le> get_balance ex_db ''acc1''" "get_balance ex_db ''acc1'' - 1000 < 0"
    by (simp_all add: get_balance_eq ex_db_def)
  have o: "\<forall>x\<in>set ex_ops. deposit_nonneg x"
    by (simp add: ex_ops_def)
  have r: "get_balance (run_ops ex_db ''acc1'' ex_ops) ''acc1'' = 0"
    by (simp add: run_ops_def ex_ops_def deposit_eq withdraw_eq get_balance_eq ex_db_def
          float_evals)
  show ?thesis
    using balance_never_negative [OF b(1) o] b o r by (simp add: list_all_iff)
qed

subsection \<open>Closed accounts\<close>

text \<open>
  C3, as stated, fails for \<^verbatim>\<open>update_account_details\<close>, which does not look at the
  status: on the closed account \<^verbatim>\<open>acc3\<close> it returns true and renames the holder.
\<close>

theorem closed_account_update_counterexample:
  "map_option status (accounts ex_db ''acc3'') = Some ''closed''
   \<and> map_option holder_name (accounts ex_db ''acc3'') = Some ''Carol''
   \<and> fst (update_account_details ex_db ''acc3'' (Some ''Dave'') None) = True
   \<and> map_option holder_name
        (accounts (snd (update_account_details ex_db ''acc3'' (Some ''Dave'') None)) ''acc3'')
       = Some ''Dave''"
  by (simp add: update_account_details_def conn_defs update_columns_def rowcount_def ex_db_def)

text \<open>
  C3, amended. On a closed account every deposit, every withdraw and every transfer with
  the account as source returns false and changes nothing at all; every transfer with
  the account as destination returns false and leaves the account's row and its ledger
  entries as they were; \<^verbatim>\<open>update_account_details\<close> leaves its balance, its status and
  the ledger as they were.
\<close>

theorem closed_account_frozen:
  assumes "accounts file aid = Some a" and "status a = ''closed''"
  shows "deposit file aid amt desc now = (False, file)
       \<and> withdraw file aid amt desc now = (False, file)
       \<and> transfer file aid other amt now1 now2 = (False, file)
       \<and> fst (transfer file other aid amt now1 now2) = False
       \<and> accounts (snd (transfer file other aid amt now1 now2)) aid = Some a
       \<and> account_txns (snd (transfer file other aid amt now1 now2)) aid = account_txns file aid
       \<and> (\<exists>a'. accounts (snd (update_account_details file aid holder ty)) aid = Some a'
              \<and> balance a' = balance a \<and> status a' = status a)
       \<and> transactions (snd (update_account_details file aid holder ty)) = transactions file"
proof -
  have d: "deposit file aid amt desc now = (False, file)"
    and w: "withdraw file aid amt desc now = (False, file)" for amt desc now
    using assms by (simp_all add: deposit_eq withdraw_eq)
  have t1: "transfer file aid other amt now1 now2 = (False, file)"
    by (simp add: transfer_eq w)
  have t2: "fst (transfer file other aid amt now1 now2) = False
       \<and> accounts (snd (transfer file other aid amt now1 now2)) aid = Some a
       \<and> account_txns (snd (transfer file other aid amt now1 now2)) aid = account_txns file aid"
  proof (cases "other = aid")
    case True
    then show ?thesis using assms t1 by simp
  next
    case False
    then show ?thesis
      using assms
      by (auto simp: transfer_eq withdraw_eq deposit_eq account_txns_def
            split: option.splits)
  qed
  have u: "(\<exists>a'. accounts (snd (update_account_details file aid holder ty)) aid = Some a'
              \<and> balance a' = balance a \<and> status a' = status a)
       \<and> transactions (snd (update_account_details file aid holder ty)) = transactions file"
    using assms by (simp add: update_account_details_eq)
  from d w t1 t2 u show ?thesis by simp
qed

theorem closed_account_frozen_witness:
  "map_option status (accounts ex_db ''acc3'') = Some ''closed''
   \<and> deposit ex_db ''acc3'' 1 ''x'' ''2024-01-02 10:00:00'' = (False, ex_db)
   \<and> withdraw ex_db ''acc3'' 1 ''x'' ''2024-01-02 10:00:00'' = (False, ex_db)
   \<and> transfer ex_db ''acc3'' ''acc2'' 10 ''2024-01-02 10:00:00'' ''2024-01-02 10:00:01''
       = (False, ex_db)
   \<and> fst (transfer ex_db ''acc1'' ''acc3'' 10 ''2024-01-02 10:00:00'' ''2024-01-02 10:00:01'')
       = False
   \<and> get_balance
        (snd (transfer ex_db ''acc1'' ''acc3'' 10 ''2024-01-02 10:00:00'' ''2024-01-02 10:00:01''))
        ''acc3'' = 0"
proof -
  have a3: "accounts ex_db ''acc3'' =
              Some \<lparr>holder_name = ''Carol'', account_type = ''savings'', balance = 0,
                    status = ''closed'', created_at = ''2024-01-01''\<rparr>"
    by (simp add: ex_db_def)
  have st: "status \<lparr>holder_name = ''Carol'', account_type = ''savings'', balance = 0,
                    status = ''closed'', created_at = ''2024-01-01''\<rparr> = ''closed''"
    by simp
  show ?thesis
    using closed_account_frozen [OF a3 st, where amt = 1 and desc = "''x''"
            and now = "''2024-01-02 10:00:00''" and other = "''acc2''"
            and ?now1.0 = "''2024-01-02 10:00:00''" and ?now2.0 = "''2024-01-02 10:00:01''"]
          closed_account_frozen [OF a3 st, where amt = 10 and other = "''acc2''"
            and ?now1.0 = "''2024-01-02 10:00:00''" and ?now2.0 = "''2024-01-02 10:00:01''"]
          closed_account_frozen [OF a3 st, where amt = 10 and other = "''acc1''"
            and ?now1.0 = "''2024-01-02 10:00:00''" and ?now2.0 = "''2024-01-02 10:00:01''"]
          a3
    by (simp add: get_balance_eq)
qed

subsection \<open>Conservation under transfer\<close>




subsection \<open>Closing an account\<close>

text \<open>
  C5. \<^verbatim>\<open>close_account\<close> returns false and changes nothing when the account does not
  exist or its balance is not zero; otherwise it returns true and sets the status of
  the account to closed, changing nothing else. So an account with a non-zero balance
  keeps its status.
\<close>

theorem close_account_spec:
  "(accounts file aid = None \<longrightarrow> close_account file aid = (False, file))
   \<and> (\<forall>a. accounts file aid = Some a \<and> balance a \<noteq> 0 \<longrightarrow> close_account file aid = (False, file))
   \<and> (\<forall>a. accounts file aid = Some a \<and> balance a = 0 \<longrightarrow>
          close_account file aid =
            (True, file\<lparr>accounts := (accounts file)(aid \<mapsto> a\<lparr>status := ''closed''\<rparr>)\<rparr>))"
  by (simp add: close_account_eq)

theorem close_account_spec_witness:
  "accounts ex_db ''acc9'' = None \<and> close_account ex_db ''acc9'' = (False, ex_db)
   \<and> get_balance ex_db ''acc1'' = 100 \<and> close_account ex_db ''acc1'' = (False, ex_db)
   \<and> get_balance ex_db ''acc2'' = 0 \<and> fst (close_account ex_db ''acc2'') = True
   \<and> map_option status (accounts (snd (close_account ex_db ''acc2'')) ''acc2'') = Some ''closed''"
proof -
  have a9: "accounts ex_db ''acc9'' = None"
    by (simp add: ex_db_def)
  have a1: "accounts ex_db ''acc1'' =
              Some \<lparr>holder_name = ''Alice'', account_type = ''savings'', balance = 100,
                    status = ''active'', created_at = ''2024-01-01''\<rparr>"
    by (simp add: ex_db_def)
  have a2: "accounts ex_db ''acc2'' =
              Some \<lparr>holder_name = ''Bob'', account_type = ''checking'', balance = 0,
                    status = ''active'', created_at = ''2024-01-01''\<rparr>"
    by (simp add: ex_db_def)
  have b: "get_balance ex_db ''acc1'' = 100" "get_balance ex_db ''acc2'' = 0"
    by (simp_all add: get_balance_eq a1 a2)
  show ?thesis
    using close_account_spec [of ex_db "''acc9''"] close_account_spec [of ex_db "''acc1''"]
      close_account_spec [of ex_db "''acc2''"] a9 a1 a2 b
    by simp
qed

subsection \<open>Opening an account\<close>

text \<open>
  C6, as stated, fails: the identifier is \<^verbatim>\<open>acc\<close> followed by eight hexadecimal
  digits of a random uuid, and the source neither checks it against the table nor draws
  again. When the digits drawn are those of an existing account, here the one opened a
  moment before, the insertion violates the primary key: the call raises
  \<^verbatim>\<open>IntegrityError\<close>, and no account and no ledger entry is added.
\<close>

theorem create_account_collision_counterexample:
  "(0 :: real) \<le> 10
   \<and> fst (create_account ex_db ''1a2b3c4d'' ''Dan'' ''savings'' 100 ''2024-01-02''
            ''2024-01-02 10:00:00'') = Inr ''acc1a2b3c4d''
   \<and> create_account
        (snd (create_account ex_db ''1a2b3c4d'' ''Dan'' ''savings'' 100 ''2024-01-02''
                ''2024-01-02 10:00:00''))
        ''1a2b3c4d'' ''Eve'' ''checking'' 10 ''2024-01-03'' ''2024-01-03 09:00:00''
       = (Inl IntegrityError,
          snd (create_account ex_db ''1a2b3c4d'' ''Dan'' ''savings'' 100 ''2024-01-02''
                 ''2024-01-02 10:00:00''))"
  by (simp add: create_account_def conn_defs insert_account_def insert_transaction_def
        Let_def ex_db_def)

text \<open>
  C6, amended. Let the initial deposit be non-negative. When the identifier drawn is not
  in the table, \<^verbatim>\<open>create_account\<close> returns it and adds an active account whose balance
  is the initial deposit, leaving every other account as it was; a positive initial
  deposit appends exactly one credit entry, described as "Initial deposit", whose amount
  and \<^verbatim>\<open>balance_after\<close> are the initial deposit, and a zero initial deposit appends
  nothing. When the identifier drawn is in the table already, the call raises
  \<^verbatim>\<open>IntegrityError\<close> and the file is as it was.
\<close>

theorem create_account_fresh_or_error:
  assumes "0 \<le> initial"
  shows "(accounts file (''acc'' @ uuid8) = None \<longrightarrow>
          fst (create_account file uuid8 holder ty initial today now) = Inr (''acc'' @ uuid8)
          \<and> accounts (snd (create_account file uuid8 holder ty initial today now))
               (''acc'' @ uuid8)
             = Some \<lparr>holder_name = holder, account_type = ty, balance = initial,
                     status = ''active'', created_at = today\<rparr>
          \<and> (\<forall>k. k \<noteq> ''acc'' @ uuid8 \<longrightarrow>
                accounts (snd (create_account file uuid8 holder ty initial today now)) k
                  = accounts file k)
          \<and> (0 < initial \<longrightarrow>
                transactions (snd (create_account file uuid8 holder ty initial today now))
                  = transactions file @
                      [\<lparr>tx_id = next_id (transactions file), tx_account_id = ''acc'' @ uuid8,
                        tx_type = ''credit'', tx_amount = initial,
                        tx_description = ''Initial deposit'', tx_balance_after = initial,
                        tx_timestamp = now\<rparr>])
          \<and> (initial = 0 \<longrightarrow>
                transactions (snd (create_account file uuid8 holder ty initial today now))
                  = transactions file))
       \<and> (accounts file (''acc'' @ uuid8) \<noteq> None \<longrightarrow>
          create_account file uuid8 holder ty initial today now = (Inl IntegrityError, file))"
  using assms by (auto simp: create_account_eq)

theorem create_account_fresh_or_error_witness:
  "accounts ex_db ''acc1a2b3c4d'' = None
   \<and> fst (create_account ex_db ''1a2b3c4d'' ''Dan'' ''savings'' 100 ''2024-01-02''
            ''2024-01-02 10:00:00'') = Inr ''acc1a2b3c4d''
   \<and> get_balance (snd (create_account ex_db ''1a2b3c4d'' ''Dan'' ''savings'' 100 ''2024-01-02''
            ''2024-01-02 10:00:00'')) ''acc1a2b3c4d'' = 100
   \<and> transactions (snd (create_account ex_db ''1a2b3c4d'' ''Dan'' ''savings'' 100 ''2024-01-02''
            ''2024-01-02 10:00:00''))
       = [\<lparr>tx_id = 1, tx_account_id = ''acc1a2b3c4d'', tx_type = ''credit'', tx_amount = 100,
           tx_description = ''Initial deposit'', tx_balance_after = 100,
           tx_timestamp = ''2024-01-02 10:00:00''\<rparr>]
   \<and> get_balance (snd (create_account ex_db ''1a2b3c4d'' ''Dan'' ''savings'' 0 ''2024-01-02''
            ''2024-01-02 10:00:00'')) ''acc1a2b3c4d'' = 0
   \<and> transactions (snd (create_account ex_db ''1a2b3c4d'' ''Dan'' ''savings'' 0 ''2024-01-02''
            ''2024-01-02 10:00:00'')) = []
   \<and> accounts ex_taken_db ''acc1a2b3c4d'' \<noteq> None
   \<and> create_account ex_taken_db ''1a2b3c4d'' ''Eve'' ''checking'' 10 ''2024-01-03''
        ''2024-01-03 09:00:00'' = (Inl IntegrityError, ex_taken_db)"
proof -
  have fresh: "accounts ex_db (''acc'' @ ''1a2b3c4d'') = None"
    by (simp add: ex_db_def)
  have taken: "accounts ex_taken_db (''acc'' @ ''1a2b3c4d'') \<noteq> None"
    by (simp add: ex_taken_db_def)
  have t: "transactions ex_db = []" "next_id [] = 1"
    by (simp_all add: ex_db_def next_id_def)
  have p: "(0::real) \<le> 100" "(0::real) \<le> 0" "(0::real) \<le> 10" by simp_all
  show ?thesis
    using create_account_fresh_or_error [OF p(1), where ?file = ex_db
            and ?uuid8.0 = "''1a2b3c4d''" and holder = "''Dan''" and ty = "''savings''"
            and today = "''2024-01-02''" and now = "''2024-01-02 10:00:00''"]
      create_account_fresh_or_error [OF p(2), where ?file = ex_db
            and ?uuid8.0 = "''1a2b3c4d''" and holder = "''Dan''" and ty = "''savings''"
            and today = "''2024-01-02''" and now = "''2024-01-02 10:00:00''"]
      create_account_fresh_or_error [OF p(3), where ?file = ex_taken_db
            and ?uuid8.0 = "''1a2b3c4d''" and holder = "''Eve''" and ty = "''checking''"
            and today = "''2024-01-03''" and now = "''2024-01-03 09:00:00''"]
      fresh taken t
    by (simp add: get_balance_eq)
qed

subsection \<open>History queries\<close>

text \<open>Every operation keeps the ledger entries pointing at existing accounts.\<close>

lemma deposit_refs_ok:
  "ledger_refs_ok d \<Longrightarrow> ledger_refs_ok (snd (deposit d aid amt desc now))"
  by (auto simp: ledger_refs_ok_def list_all_iff deposit_eq split: option.splits)

lemma withdraw_refs_ok:
  "ledger_refs_ok d \<Longrightarrow> ledger_refs_ok (snd (withdraw d aid amt desc now))"
  by (auto simp: ledger_refs_ok_def list_all_iff withdraw_eq split: option.splits)

lemma transfer_refs_ok:
  "ledger_refs_ok d \<Longrightarrow> ledger_refs_ok (snd (transfer d a b amt now1 now2))"
  using withdraw_refs_ok [of d a amt "''Transfer to '' @ b" now1]
    deposit_refs_ok [of "snd (withdraw d a amt (''Transfer to '' @ b) now1)" b amt
      "''Transfer from '' @ a" now2]
  by (auto simp: transfer_eq split: prod.splits bool.splits)

lemma create_account_refs_ok:
  "ledger_refs_ok d \<Longrightarrow>
   ledger_refs_ok (snd (create_account d uuid8 holder ty initial today now))"
  by (auto simp: ledger_refs_ok_def list_all_iff create_account_eq split: option.splits)

lemma close_account_refs_ok:
  "ledger_refs_ok d \<Longrightarrow> ledger_refs_ok (snd (close_account d aid))"
  by (auto simp: ledger_refs_ok_def list_all_iff close_account_eq split: option.splits)

lemma update_account_details_refs_ok:
  "ledger_refs_ok d \<Longrightarrow> ledger_refs_ok (snd (update_account_details d aid holder ty))"
  by (auto simp: ledger_refs_ok_def list_all_iff update_account_details_eq split: option.splits)









subsection \<open>Ledger accuracy\<close>

text \<open>
  C8. After a successful deposit, a successful withdraw, a successful transfer (for its
  source and for its destination, which may be the same account) and the opening of an
  account with a positive initial deposit, the most recent ledger entry of the affected
  account, that is the last one inserted for it, has a \<^verbatim>\<open>balance_after\<close> equal to
  the balance of the account.
\<close>

theorem ledger_accuracy:
  "(fst (deposit file aid amt desc now) \<longrightarrow>
      map_option tx_balance_after (last_txn (snd (deposit file aid amt desc now)) aid)
        = Some (get_balance (snd (deposit file aid amt desc now)) aid))
   \<and> (fst (withdraw file aid amt desc now) \<longrightarrow>
      map_option tx_balance_after (last_txn (snd (withdraw file aid amt desc now)) aid)
        = Some (get_balance (snd (withdraw file aid amt desc now)) aid))
   \<and> (fst (transfer file a b amt now1 now2) \<longrightarrow>
      map_option tx_balance_after (last_txn (snd (transfer file a b amt now1 now2)) a)
        = Some (get_balance (snd (transfer file a b amt now1 now2)) a)
      \<and> map_option tx_balance_after (last_txn (snd (transfer file a b amt now1 now2)) b)
        = Some (get_balance (snd (transfer file a b amt now1 now2)) b))
   \<and> (0 < initial \<and> accounts file (''acc'' @ uuid8) = None \<longrightarrow>
      map_option tx_balance_after
        (last_txn (snd (create_account file uuid8 holder ty initial today now)) (''acc'' @ uuid8))
        = Some (get_balance (snd (create_account file uuid8 holder ty initial today now))
                  (''acc'' @ uuid8)))"
proof -
  have d: "fst (deposit file aid amt desc now) \<longrightarrow>
      map_option tx_balance_after (last_txn (snd (deposit file aid amt desc now)) aid)
        = Some (get_balance (snd (deposit file aid amt desc now)) aid)"
    by (simp add: deposit_eq get_balance_eq last_txn_def account_txns_def split: option.splits)
  have w: "fst (withdraw file aid amt desc now) \<longrightarrow>
      map_option tx_balance_after (last_txn (snd (withdraw file aid amt desc now)) aid)
        = Some (get_balance (snd (withdraw file aid amt desc now)) aid)"
    by (simp add: withdraw_eq get_balance_eq last_txn_def account_txns_def split: option.splits)
  have t: "fst (transfer file a b amt now1 now2) \<longrightarrow>
      map_option tx_balance_after (last_txn (snd (transfer file a b amt now1 now2)) a)
        = Some (get_balance (snd (transfer file a b amt now1 now2)) a)
      \<and> map_option tx_balance_after (last_txn (snd (transfer file a b amt now1 now2)) b)
        = Some (get_balance (snd (transfer file a b amt now1 now2)) b)"
  proof (cases "a = b")
    case True
    then show ?thesis
      by (auto simp: transfer_eq withdraw_eq deposit_eq get_balance_eq last_txn_def account_txns_def
            split: option.splits if_splits)
  next
    case False
    then show ?thesis
      by (auto simp: transfer_eq withdraw_eq deposit_eq get_balance_eq last_txn_def account_txns_def
            split: option.splits if_splits)
  qed
  have c: "0 < initial \<and> accounts file (''acc'' @ uuid8) = None \<longrightarrow>
      map_option tx_balance_after
        (last_txn (snd (create_account file uuid8 holder ty initial today now)) (''acc'' @ uuid8))
        = Some (get_balance (snd (create_account file uuid8 holder ty initial today now))
                  (''acc'' @ uuid8))"
    by (simp add: create_account_eq get_balance_eq last_txn_def account_txns_def)
  from d w t c show ?thesis by blast
qed

theorem ledger_accuracy_witness:
  "fst (deposit ex_db ''acc1'' 50 ''bonus'' ''2024-01-02 10:00:00'')
   \<and> map_option tx_balance_after
        (last_txn (snd (deposit ex_db ''acc1'' 50 ''bonus'' ''2024-01-02 10:00:00'')) ''acc1'')
       = Some 150
   \<and> fst (withdraw ex_db ''acc1'' 50 ''bonus'' ''2024-01-02 10:00:00'')
   \<and> map_option tx_balance_after
        (last_txn (snd (withdraw ex_db ''acc1'' 50 ''bonus'' ''2024-01-02 10:00:00'')) ''acc1'')
       = Some 50
   \<and> fst (transfer ex_db ''acc1'' ''acc2'' 50 ''2024-01-02 10:00:00'' ''2024-01-02 10:00:01'')
   \<and> map_option tx_balance_after
        (last_txn
           (snd (transfer ex_db ''acc1'' ''acc2'' 50 ''2024-01-02 10:00:00'' ''2024-01-02 10:00:01''))
           ''acc1'')
       = Some 50
   \<and> map_option tx_balance_after
        (last_txn
           (snd (transfer ex_db ''acc1'' ''acc2'' 50 ''2024-01-02 10:00:00'' ''2024-01-02 10:00:01''))
           ''acc2'')
       = Some 50
   \<and> accounts ex_db ''acc1a2b3c4d'' = None
   \<and> map_option tx_balance_after
        (last_txn
           (snd (create_account ex_db ''1a2b3c4d'' ''Dan'' ''savings'' 25 ''2024-01-02''
                   ''2024-01-02 10:00:00''))
           ''acc1a2b3c4d'')
       = Some 25"
proof -
  have ok: "fst (deposit ex_db ''acc1'' 50 ''bonus'' ''2024-01-02 10:00:00'')"
    "fst (withdraw ex_db ''acc1'' 50 ''bonus'' ''2024-01-02 10:00:00'')"
    "fst (transfer ex_db ''acc1'' ''acc2'' 50 ''2024-01-02 10:00:00'' ''2024-01-02 10:00:01'')"
    by (simp_all add: transfer_eq withdraw_eq deposit_eq ex_db_def)
  have fresh: "accounts ex_db (''acc'' @ ''1a2b3c4d'') = None" and pos: "(0::real) < 25"
    by (simp_all add: ex_db_def)
  have b: "get_balance (snd (deposit ex_db ''acc1'' 50 ''bonus'' ''2024-01-02 10:00:00'')) ''acc1''
             = 150"
    "get_balance (snd (withdraw ex_db ''acc1'' 50 ''bonus'' ''2024-01-02 10:00:00'')) ''acc1''
       = 50"
    "get_balance
       (snd (transfer ex_db ''acc1'' ''acc2'' 50 ''2024-01-02 10:00:00'' ''2024-01-02 10:00:01''))
       ''acc1'' = 50"
    "get_balance
       (snd (transfer ex_db ''acc1'' ''acc2'' 50 ''2024-01-02 10:00:00'' ''2024-01-02 10:00:01''))
       ''acc2'' = 50"
    "get_balance
       (snd (create_account ex_db ''1a2b3c4d'' ''Dan'' ''savings'' 25 ''2024-01-02''
               ''2024-01-02 10:00:00''))
       (''acc'' @ ''1a2b3c4d'') = 25"
    by (simp_all add: transfer_eq withdraw_eq deposit_eq create_account_eq get_balance_eq
          ex_db_def float_evals)
  show ?thesis
    using ledger_accuracy [where ?file = ex_db and aid = "''acc1''" and amt = 50
            and desc = "''bonus''" and now = "''2024-01-02 10:00:00''"
            and a = "''acc1''" and b = "''acc2''"
            and ?now1.0 = "''2024-01-02 10:00:00''" and ?now2.0 = "''2024-01-02 10:00:01''"
            and initial = 25 and ?uuid8.0 = "''1a2b3c4d''" and holder = "''Dan''"
            and ty = "''savings''" and today = "''2024-01-02''"]
          ok fresh pos b
    by simp
qed

subsection \<open>Updating account details\<close>

text \<open>
  C9. \<^verbatim>\<open>update_account_details\<close> writes only the fields it is given, where a field
  counts as given when it is a non-empty string (the source's \<^verbatim>\<open>if holder_name:\<close>);
  balance, status, creation date, the fields not given, every other account and the
  ledger stay as they were. With neither field given it returns true and changes
  nothing. With at least one field given it returns false exactly when the account
  does not exist.
\<close>

theorem update_account_details_spec:
  "(\<not> truthy holder \<and> \<not> truthy ty \<longrightarrow>
      update_account_details file aid holder ty = (True, file))
   \<and> (truthy holder \<or> truthy ty \<longrightarrow>
        (fst (update_account_details file aid holder ty) = False \<longleftrightarrow> accounts file aid = None))
   \<and> transactions (snd (update_account_details file aid holder ty)) = transactions file
   \<and> (\<forall>k. k \<noteq> aid \<longrightarrow>
         accounts (snd (update_account_details file aid holder ty)) k = accounts file k)
   \<and> (accounts file aid = None \<longrightarrow>
         accounts (snd (update_account_details file aid holder ty)) aid = None)
   \<and> (\<forall>a. accounts file aid = Some a \<longrightarrow>
         (\<exists>a'. accounts (snd (update_account_details file aid holder ty)) aid = Some a'
             \<and> balance a' = balance a \<and> status a' = status a \<and> created_at a' = created_at a
             \<and> (\<forall>v. holder = Some v \<and> v \<noteq> [] \<longrightarrow> holder_name a' = v)
             \<and> (\<not> truthy holder \<longrightarrow> holder_name a' = holder_name a)
             \<and> (\<forall>v. ty = Some v \<and> v \<noteq> [] \<longrightarrow> account_type a' = v)
             \<and> (\<not> truthy ty \<longrightarrow> account_type a' = account_type a)))"
  by (auto simp: update_account_details_eq truthy_def split: option.splits)

theorem update_account_details_spec_witness:
  "\<not> truthy None \<and> update_account_details ex_db ''acc1'' None None = (True, ex_db)
   \<and> truthy (Some ''Alicia'')
   \<and> accounts ex_db ''acc1'' \<noteq> None
   \<and> fst (update_account_details ex_db ''acc1'' (Some ''Alicia'') None) = True
   \<and> map_option holder_name
        (accounts (snd (update_account_details ex_db ''acc1'' (Some ''Alicia'') None)) ''acc1'')
       = Some ''Alicia''
   \<and> map_option balance
        (accounts (snd (update_account_details ex_db ''acc1'' (Some ''Alicia'') None)) ''acc1'')
       = Some 100
   \<and> accounts ex_db ''acc9'' = None
   \<and> fst (update_account_details ex_db ''acc9'' (Some ''Alicia'') None) = False"
proof -
  have t: "\<not> truthy None" "truthy (Some ''Alicia'')"
    by (simp_all add: truthy_def)
  have a1: "accounts ex_db ''acc1'' =
              Some \<lparr>holder_name = ''Alice'', account_type = ''savings'', balance = 100,
                    status = ''active'', created_at = ''2024-01-01''\<rparr>"
    by (simp add: ex_db_def)
  have a9: "accounts ex_db ''acc9'' = None"
    by (simp add: ex_db_def)
  have n: "update_account_details ex_db ''acc1'' None None = (True, ex_db)"
    using update_account_details_spec [of None None ex_db "''acc1''"] t by blast
  have f: "fst (update_account_details ex_db ''acc9'' (Some ''Alicia'') None) = False"
    using update_account_details_spec [of "Some ''Alicia''" None ex_db "''acc9''"] t a9 by blast
  have s: "fst (update_account_details ex_db ''acc1'' (Some ''Alicia'') None) = True"
    using update_account_details_spec [of "Some ''Alicia''" None ex_db "''acc1''"] t a1 by auto
  obtain a' where
    "accounts (snd (update_account_details ex_db ''acc1'' (Some ''Alicia'') None)) ''acc1'' = Some a'"
    "balance a' = 100" "holder_name a' = ''Alicia''"
    using update_account_details_spec [of "Some ''Alicia''" None ex_db "''acc1''"] a1 by auto
  with t a1 a9 n f s show ?thesis by simp
qed

subsection \<open>Closing a closed account\<close>

text \<open>
  C10. Closing an existing account whose balance is zero returns true and leaves it
  closed, also when it was closed already; in that case the file is exactly as before.
\<close>

theorem close_account_reclose:
  assumes "accounts file aid = Some a" and "balance a = 0"
  shows "fst (close_account file aid) = True
       \<and> map_option status (accounts (snd (close_account file aid)) aid) = Some ''closed''
       \<and> (status a = ''closed'' \<longrightarrow> snd (close_account file aid) = file)"
proof -
  have "status a = ''closed'' \<Longrightarrow> (accounts file)(aid \<mapsto> a\<lparr>status := ''closed''\<rparr>) = accounts file"
    using assms(1) by (cases a) (auto simp: fun_upd_idem)
  then show ?thesis
    using assms by (auto simp: close_account_eq)
qed

theorem close_account_reclose_witness:
  "map_option status (accounts ex_db ''acc3'') = Some ''closed''
   \<and> get_balance ex_db ''acc3'' = 0
   \<and> close_account ex_db ''acc3'' = (True, ex_db)"
proof -
  have a3: "accounts ex_db ''acc3'' =
              Some \<lparr>holder_name = ''Carol'', account_type = ''savings'', balance = 0,
                    status = ''closed'', created_at = ''2024-01-01''\<rparr>"
    by (simp add: ex_db_def)
  have "fst (close_account ex_db ''acc3'') = True \<and> snd (close_account ex_db ''acc3'') = ex_db"
    using close_account_reclose [OF a3] by simp
  then have "close_account ex_db ''acc3'' = (True, ex_db)"
    by (metis prod.collapse)
  then show ?thesis
    by (simp add: a3 get_balance_eq)
qed

end
